theory Spec2Isabelle
  imports Main "HOL-Library.AList" "HOL-Library.Sublist"
begin

section \<open>JavaScript values, objects and the lodash helpers the handler calls\<close>

text \<open>
  The handler of \<^verbatim>\<open>src/routes/workItems/create.js\<close> works on plain JavaScript objects:
  the request payload, the rows the ORM returns and the entity it publishes. An object is
  an association list from property names to values, read through \<open>map_of\<close>, so that
  adding a property (\<^verbatim>\<open>_.assign\<close>) and removing one (\<^verbatim>\<open>_.omit\<close>) are visible in the
  model. Numbers are the integers the handler deals with (identifiers, the configured
  limit, status codes); the payload's prices are passed through untouched.
\<close>

datatype jsval =
    JUndefined
  | JNull
  | JNum int
  | JStr string
  | JObj "(string \<times> jsval) list"

type_synonym obj = "(string \<times> jsval) list"

definition keys :: "obj \<Rightarrow> string set" where
  "keys ob = fst ` set ob"

text \<open>\<^verbatim>\<open>o.k\<close>: the value of a property, \<^verbatim>\<open>undefined\<close> when the object has none.\<close>

definition get_prop :: "obj \<Rightarrow> string \<Rightarrow> jsval" where
  "get_prop ob k = (case map_of ob k of None \<Rightarrow> JUndefined | Some v \<Rightarrow> v)"

text \<open>\<^verbatim>\<open>_.assign(target, source)\<close>: every property of the source is set on the target,
  in the source's order.\<close>

definition assign :: "obj \<Rightarrow> obj \<Rightarrow> obj" where
  "assign target source = fold (\<lambda>(k, v). AList.update k v) source target"

text \<open>\<^verbatim>\<open>_.omit(object, paths)\<close>: a copy without the listed properties.\<close>

definition omit :: "obj \<Rightarrow> string list \<Rightarrow> obj" where
  "omit ob ks = filter (\<lambda>(k, v). k \<notin> set ks) ob"

text \<open>A template literal \<^verbatim>\<open>${n}\<close> on an integer prints it in decimal.\<close>

definition digit_char :: "nat \<Rightarrow> char" where
  "digit_char d = ''0123456789'' ! d"

fun digits :: "nat \<Rightarrow> string" where
  "digits n = (if n < 10 then [digit_char n] else digits (n div 10) @ [digit_char (n mod 10)])"

declare digits.simps [simp del]

definition show_int :: "int \<Rightarrow> string" where
  "show_int i = (if i < 0 then CHR ''-'' # digits (nat (- i)) else digits (nat i))"

text \<open>An \<^verbatim>\<open>Error\<close> object: its message and the \<^verbatim>\<open>status\<close> the handler sets on the
  errors it throws itself (an error of the store has none).\<close>

record jserror =
  err_message :: string
  err_status :: "int option"

section \<open>The relational store behind the ORM\<close>

text \<open>
  A row is an object keyed by column name; a column without a value is SQL \<open>NULL\<close>.
  A \<^verbatim>\<open>where\<close> clause of the handler is the list of its \<open>column = value\<close> conditions;
  \<^verbatim>\<open>{ $eq: null }\<close> is the condition that the column is \<open>NULL\<close>.
\<close>

type_synonym where_clause = "(string \<times> jsval) list"

definition column :: "obj \<Rightarrow> string \<Rightarrow> jsval" where
  "column r k = (case map_of r k of None \<Rightarrow> JNull | Some JUndefined \<Rightarrow> JNull | Some v \<Rightarrow> v)"

definition where_matches :: "where_clause \<Rightarrow> obj \<Rightarrow> bool" where
  "where_matches w r = list_all (\<lambda>(k, v). column r k = v) w"

text \<open>
  Modelled from the spec: the association between a phase and its work streams is declared
  in \<^verbatim>\<open>src/models\<close>, which is not among the sources. The spec has the phase
  ``joined to a WorkStream'', an association that ``must hold for that phase'': the store
  keeps it as link rows (phase id, work stream id).
\<close>

record store =
  projects :: "obj list"
  work_streams :: "obj list"
  project_phases :: "obj list"
  phase_work_streams :: "(jsval \<times> jsval) list"
  phase_products :: "obj list"

text \<open>
  The model declarations are not among the sources either. What they can add to a query is
  the ORM's implicit soft-delete scope (a model declared \<^verbatim>\<open>paranoid\<close> has
  \<open>deletedAt IS NULL\<close> added to every query on it); it is a parameter here, for the two
  models the handler queries without a \<open>deletedAt\<close> condition of its own.
\<close>

record model_options =
  paranoid_ProjectPhase :: bool
  paranoid_WorkStream :: bool


definition in_scope :: "bool \<Rightarrow> obj \<Rightarrow> bool" where
  "in_scope paranoid r = (if paranoid then column r ''deletedAt'' = JNull else True)"

text \<open>\<^verbatim>\<open>include: [{ model: models.WorkStream, where: ... }]\<close>: the work streams linked to the
  phase that meet the inner condition. An include with a \<^verbatim>\<open>where\<close> is a required
  (inner) join: a phase with no such work stream is not returned.\<close>

definition included_WorkStreams :: "model_options \<Rightarrow> store \<Rightarrow> where_clause \<Rightarrow> obj \<Rightarrow> obj list" where
  "included_WorkStreams m st iw p =
     filter (\<lambda>ws. in_scope (paranoid_WorkStream m) ws \<and> where_matches iw ws \<and>
                  (column p ''id'', column ws ''id'') \<in> set (phase_work_streams st))
            (work_streams st)"

definition ProjectPhase_findOne :: "model_options \<Rightarrow> store \<Rightarrow> where_clause \<Rightarrow> where_clause \<Rightarrow> obj option" where
  "ProjectPhase_findOne m st w iw =
     find (\<lambda>p. in_scope (paranoid_ProjectPhase m) p \<and> where_matches w p \<and>
               included_WorkStreams m st iw p \<noteq> [])
          (project_phases st)"

definition Project_findOne :: "store \<Rightarrow> where_clause \<Rightarrow> obj option" where
  "Project_findOne st w = find (where_matches w) (projects st)"

definition PhaseProduct_count :: "store \<Rightarrow> where_clause \<Rightarrow> int" where
  "PhaseProduct_count st w = int (length (filter (where_matches w) (phase_products st)))"

section \<open>Configuration, collaborators and the request\<close>

record request =
  params_projectId :: int
  params_workStreamId :: int
  params_workId :: int
  body_param :: obj
  authUser_userId :: jsval
  req_id :: jsval

text \<open>
  What the handler takes from outside the file: \<^verbatim>\<open>config.maxPhaseProductCount\<close>, the
  constant \<^verbatim>\<open>EVENT.ROUTING_KEY.PROJECT_PHASE_PRODUCT_ADDED\<close>, the model declarations, the
  store's answer to an insert (a rejection, or the generated id and timestamp), and whether
  \<^verbatim>\<open>pubsub.publish\<close> and \<^verbatim>\<open>app.emit\<close> throw on the arguments they are given.
\<close>

record env =
  maxPhaseProductCount :: int
  PROJECT_PHASE_PRODUCT_ADDED :: string
  models :: model_options
  db_insert :: "store \<Rightarrow> obj \<Rightarrow> jserror + (jsval \<times> jsval)"
  publish_throws :: "string \<Rightarrow> obj \<Rightarrow> obj \<Rightarrow> jserror option"
  emit_throws :: "string \<Rightarrow> request \<Rightarrow> obj \<Rightarrow> jserror option"

text \<open>
  Modelled from the spec: \<^verbatim>\<open>util.wrapResponse\<close> is not among the sources. The spec has it
  wrap ``request id, payload, version, HTTP status 201'' into an envelope; the envelope
  holds the four arguments of the call.
\<close>

record envelope =
  wrap_id :: jsval
  wrap_content :: obj
  wrap_version :: int
  wrap_status :: int

definition wrapResponse :: "jsval \<Rightarrow> obj \<Rightarrow> int \<Rightarrow> int \<Rightarrow> envelope" where
  "wrapResponse rid content v status =
     \<lparr>wrap_id = rid, wrap_content = content, wrap_version = v, wrap_status = status\<rparr>"

text \<open>What the handler does to the outside, in the order it does it.\<close>

datatype event =
    is_LogDebug: LogDebug string "jsval list"
  | is_Publish: Publish string obj obj
  | is_Emit: Emit string request obj
  | is_Respond: Respond int envelope
  | is_Next: Next jserror

section \<open>The handler (lines 41--136)\<close>

text \<open>The three \<^verbatim>\<open>where\<close> clauses of the linkage lookup, the project lookup and the count,
  as the handler writes them.\<close>

definition phase_where :: "int \<Rightarrow> int \<Rightarrow> where_clause" where
  "phase_where phaseId projectId = [(''id'', JNum phaseId), (''projectId'', JNum projectId)]"

definition work_stream_where :: "int \<Rightarrow> int \<Rightarrow> where_clause" where
  "work_stream_where workStreamId projectId =
     [(''id'', JNum workStreamId), (''projectId'', JNum projectId)]"

definition project_where :: "int \<Rightarrow> where_clause" where
  "project_where projectId = [(''id'', JNum projectId), (''deletedAt'', JNull)]"

definition count_where :: "int \<Rightarrow> int \<Rightarrow> where_clause" where
  "count_where projectId phaseId =
     [(''projectId'', JNum projectId), (''phaseId'', JNum phaseId), (''deletedAt'', JNull)]"

text \<open>The three errors the handler throws.\<close>

definition linkage_not_found :: "int \<Rightarrow> int \<Rightarrow> int \<Rightarrow> jserror" where
  "linkage_not_found projectId workStreamId phaseId =
     \<lparr>err_message = ''project work stream not found for project id '' @ show_int projectId @
                     '' and work stream '' @ show_int workStreamId @
                     '' and phase id '' @ show_int phaseId,
      err_status = Some 404\<rparr>"

definition project_not_found :: "int \<Rightarrow> jserror" where
  "project_not_found projectId =
     \<lparr>err_message = ''project not found for project id '' @ show_int projectId,
      err_status = Some 404\<rparr>"

definition quota_exceeded :: "int \<Rightarrow> jserror" where
  "quota_exceeded limit =
     \<lparr>err_message = ''the number of products per phase cannot exceed '' @ show_int limit,
      err_status = Some 400\<rparr>"

text \<open>Lines 46--53: the payload with the handler's default values set on it.\<close>

definition with_defaults :: "request \<Rightarrow> obj" where
  "with_defaults req =
     assign (body_param req)
       [(''projectId'', JNum (params_projectId req)),
        (''phaseId'', JNum (params_workId req)),
        (''createdBy'', authUser_userId req),
        (''updatedBy'', authUser_userId req)]"

text \<open>Lines 90--95: the payload with the path's ids and the project's two values set on it.\<close>

definition enrich :: "obj \<Rightarrow> int \<Rightarrow> int \<Rightarrow> obj \<Rightarrow> obj" where
  "enrich data projectId phaseId existingProject =
     assign data
       [(''phaseId'', JNum phaseId),
        (''projectId'', JNum projectId),
        (''directProjectId'', get_prop existingProject ''directProjectId''),
        (''billingAccountId'', get_prop existingProject ''billingAccountId'')]"

text \<open>Lines 116--120: the created row as a plain object (\<^verbatim>\<open>cloneDeep\<close> and
  \<^verbatim>\<open>get({ plain: true })\<close> keep every property), without \<^verbatim>\<open>deletedAt\<close> and \<^verbatim>\<open>utm\<close>.\<close>

definition sanitize :: "obj \<Rightarrow> obj" where
  "sanitize row = omit row [''deletedAt'', ''utm'']"

text \<open>
  Modelled from the spec: \<^verbatim>\<open>models.PhaseProduct\<close> is declared in \<^verbatim>\<open>src/models\<close>, which
  is not among the sources. By the spec the insert creates ``the PhaseProduct record with
  the enriched payload'' and returns ``the persisted record including generated id and
  timestamps''; the persisted row also has the soft-delete marker and the internal
  tracking field, unset on a row the payload gives no value for.
\<close>

definition with_default :: "string \<Rightarrow> jsval \<Rightarrow> obj \<Rightarrow> obj" where
  "with_default k v ob = (if k \<in> keys ob then ob else ob @ [(k, v)])"

definition persisted_row :: "obj \<Rightarrow> jsval \<Rightarrow> jsval \<Rightarrow> obj" where
  "persisted_row data newId now =
     with_default ''utm'' JNull (with_default ''deletedAt'' JNull
       (assign data [(''id'', newId), (''createdAt'', now), (''updatedAt'', now)]))"

definition PhaseProduct_create :: "env \<Rightarrow> store \<Rightarrow> obj \<Rightarrow> (jserror + obj) \<times> store" where
  "PhaseProduct_create e st data =
     (case db_insert e st data of
        Inl err \<Rightarrow> (Inl err, st)
      | Inr (newId, now) \<Rightarrow>
          (let row = persisted_row data newId now
           in (Inr row, st\<lparr>phase_products := phase_products st @ [row]\<rparr>)))"

text \<open>
  \<^verbatim>\<open>models.sequelize.transaction(callback)\<close>: the callback's writes are committed when its
  promise resolves and rolled back when it rejects.
\<close>

definition transaction :: "(store \<Rightarrow> (jserror + 'a) \<times> store) \<Rightarrow> store \<Rightarrow> (jserror + 'a) \<times> store" where
  "transaction body st =
     (case body st of
        (Inl err, st') \<Rightarrow> (Inl err, st)
      | (Inr x, st') \<Rightarrow> (Inr x, st'))"

text \<open>
  The callback of the transaction, lines 56--122. It gets \<open>data\<close>, the payload after the
  defaults of lines 48--53, and gives back the sanitized entity \<open>newPhaseProduct\<close>, the
  payload as lines 90--95 leave it (the object is changed in place) and what it logged.
\<close>

definition create_in_transaction ::
    "env \<Rightarrow> int \<Rightarrow> int \<Rightarrow> int \<Rightarrow> obj \<Rightarrow> store \<Rightarrow> (jserror + obj \<times> obj \<times> event list) \<times> store" where
  "create_in_transaction e projectId workStreamId phaseId data st =
     (case ProjectPhase_findOne (models e) st (phase_where phaseId projectId)
                                (work_stream_where workStreamId projectId) of
        None \<Rightarrow> (Inl (linkage_not_found projectId workStreamId phaseId), st)
      | Some existing \<Rightarrow>
     (case Project_findOne st (project_where projectId) of
        None \<Rightarrow> (Inl (project_not_found projectId), st)
      | Some existingProject \<Rightarrow>
          (let data' = enrich data projectId phaseId existingProject;
               productCount = PhaseProduct_count st (count_where projectId phaseId)
           in if productCount \<ge> maxPhaseProductCount e
              then (Inl (quota_exceeded (maxPhaseProductCount e)), st)
              else (case PhaseProduct_create e st data' of
                      (Inl err, st') \<Rightarrow> (Inl err, st')
                    | (Inr row, st') \<Rightarrow>
                        (let newPhaseProduct = sanitize row
                         in (Inr (newPhaseProduct, data',
                                  [LogDebug ''new work created (id# %d, name: %s)''
                                     [get_prop row ''id'', get_prop row ''name'']]),
                             st'))))))"

text \<open>
  The \<^verbatim>\<open>then\<close> after the transaction, lines 123--134: publish, emit, respond. A call that
  throws ends the callback; the chain's \<^verbatim>\<open>catch\<close> of line 135 then gets the error.
\<close>

definition send_events :: "env \<Rightarrow> request \<Rightarrow> obj \<Rightarrow> event list" where
  "send_events e req newPhaseProduct =
     (let key = PROJECT_PHASE_PRODUCT_ADDED e;
          props = [(''correlationId'', req_id req)];
          log1 = LogDebug ''Sending event to RabbitMQ bus for phase product %d''
                   [get_prop newPhaseProduct ''id''];
          log2 = LogDebug ''Sending event to Kafka bus for phase product %d''
                   [get_prop newPhaseProduct ''id'']
      in case publish_throws e key newPhaseProduct props of
           Some err \<Rightarrow> [log1, Publish key newPhaseProduct props, Next err]
         | None \<Rightarrow>
        (case emit_throws e key req newPhaseProduct of
           Some err \<Rightarrow> [log1, Publish key newPhaseProduct props, log2,
                        Emit key req newPhaseProduct, Next err]
         | None \<Rightarrow> [log1, Publish key newPhaseProduct props, log2,
                    Emit key req newPhaseProduct,
                    Respond 201 (wrapResponse (req_id req) newPhaseProduct 1 201)]))"

text \<open>
  The handler. The path parameters have passed \<^verbatim>\<open>validate(schema)\<close> and are integers, on
  which \<^verbatim>\<open>_.parseInt\<close> is the identity. The result is the store and the trace of events
  the call leaves behind. The request the emit carries is the request object itself, whose
  \<^verbatim>\<open>body.param\<close> the handler has changed in place.
\<close>

definition handler :: "env \<Rightarrow> request \<Rightarrow> store \<Rightarrow> store \<times> event list" where
  "handler e req st =
     (let projectId = params_projectId req;
          workStreamId = params_workStreamId req;
          phaseId = params_workId req;
          data = with_defaults req
      in case transaction (create_in_transaction e projectId workStreamId phaseId data) st of
           (Inl err, st') \<Rightarrow> (st', [Next err])
         | (Inr (newPhaseProduct, data', logs), st') \<Rightarrow>
             (st', logs @ send_events e (req\<lparr>body_param := data'\<rparr>) newPhaseProduct))"

text \<open>The entity an event carries: the payload of a publish, the created entity of an emit,
  the content of a response.\<close>

definition event_entity :: "event \<Rightarrow> obj option" where
  "event_entity ev =
     (case ev of
        Publish key payload props \<Rightarrow> Some payload
      | Emit key req created \<Rightarrow> Some created
      | Respond status body \<Rightarrow> Some (wrap_content body)
      | _ \<Rightarrow> None)"

section \<open>The quota in the spec's words\<close>


section \<open>A concrete project, for evaluating the handler\<close>

text \<open>
  The scenario of the spec: project 1 with work stream 10 and phase 100, a limit of two
  products per phase, and a payload that tries to set \<^verbatim>\<open>directProjectId\<close> itself.
\<close>

definition ex_env :: env where
  "ex_env =
     \<lparr>maxPhaseProductCount = 2,
      PROJECT_PHASE_PRODUCT_ADDED = ''project.phase.product.added'',
      models = \<lparr>paranoid_ProjectPhase = False, paranoid_WorkStream = False\<rparr>,
      db_insert = (\<lambda>st data. Inr (JNum 7, JStr ''2019-06-01T00:00:00Z'')),
      publish_throws = (\<lambda>key payload props. None),
      emit_throws = (\<lambda>key req created. None)\<rparr>"

definition ex_project :: obj where
  "ex_project =
     [(''id'', JNum 1), (''directProjectId'', JNum 55), (''billingAccountId'', JNum 66),
      (''deletedAt'', JNull)]"

definition ex_store :: "obj list \<Rightarrow> store" where
  "ex_store products =
     \<lparr>projects = [ex_project],
      work_streams = [[(''id'', JNum 10), (''projectId'', JNum 1), (''deletedAt'', JNull)]],
      project_phases = [[(''id'', JNum 100), (''projectId'', JNum 1), (''deletedAt'', JNull)]],
      phase_work_streams = [(JNum 100, JNum 10)],
      phase_products = products\<rparr>"

definition ex_product :: "int \<Rightarrow> obj" where
  "ex_product i =
     [(''id'', JNum i), (''name'', JStr ''Plan''), (''type'', JStr ''product''),
      (''projectId'', JNum 1), (''phaseId'', JNum 100), (''deletedAt'', JNull),
      (''utm'', JNull)]"

definition ex_req :: request where
  "ex_req =
     \<lparr>params_projectId = 1, params_workStreamId = 10, params_workId = 100,
      body_param = [(''name'', JStr ''Design''), (''type'', JStr ''product''),
                    (''directProjectId'', JNum 9)],
      authUser_userId = JNum 40051333,
      req_id = JStr ''req-1''\<rparr>"

definition ex_store_deleted_project :: store where
  "ex_store_deleted_project =
     (ex_store [])\<lparr>projects :=
        [AList.update ''deletedAt'' (JStr ''2019-05-01T00:00:00Z'') ex_project]\<rparr>"

definition ex_env_rejecting :: env where
  "ex_env_rejecting =
     ex_env\<lparr>db_insert := (\<lambda>st data.
        Inl \<lparr>err_message = ''value too long for type character varying(255)'',
             err_status = None\<rparr>)\<rparr>"

definition ex_env_publish_fails :: env where
  "ex_env_publish_fails =
     ex_env\<lparr>publish_throws := (\<lambda>key payload props.
        Some \<lparr>err_message = ''channel closed'', err_status = None\<rparr>)\<rparr>"

definition ex_env_emit_fails :: env where
  "ex_env_emit_fails =
     ex_env\<lparr>emit_throws := (\<lambda>key req created.
        Some \<lparr>err_message = ''listener failed'', err_status = None\<rparr>)\<rparr>"


text \<open>The trace of the concrete call that goes all the way.\<close>

definition ex_created :: obj where
  "ex_created =
     [(''name'', JStr ''Design''), (''type'', JStr ''product''), (''directProjectId'', JNum 55),
      (''projectId'', JNum 1), (''phaseId'', JNum 100), (''createdBy'', JNum 40051333),
      (''updatedBy'', JNum 40051333), (''billingAccountId'', JNum 66), (''id'', JNum 7),
      (''createdAt'', JStr ''2019-06-01T00:00:00Z''),
      (''updatedAt'', JStr ''2019-06-01T00:00:00Z'')]"

definition ex_trace :: "event list" where
  "ex_trace =
     [LogDebug ''new work created (id# %d, name: %s)'' [JNum 7, JStr ''Design''],
      LogDebug ''Sending event to RabbitMQ bus for phase product %d'' [JNum 7],
      Publish ''project.phase.product.added'' ex_created [(''correlationId'', JStr ''req-1'')],
      LogDebug ''Sending event to Kafka bus for phase product %d'' [JNum 7],
      Emit ''project.phase.product.added''
        (ex_req\<lparr>body_param :=
           [(''name'', JStr ''Design''), (''type'', JStr ''product''),
            (''directProjectId'', JNum 55), (''projectId'', JNum 1), (''phaseId'', JNum 100),
            (''createdBy'', JNum 40051333), (''updatedBy'', JNum 40051333),
            (''billingAccountId'', JNum 66)]\<rparr>)
        ex_created,
      Respond 201 (wrapResponse (JStr ''req-1'') ex_created 1 201)]"




section \<open>Reading the queries and the transaction\<close>

lemmas handler_defs =
  handler_def transaction_def create_in_transaction_def send_events_def wrapResponse_def
  ProjectPhase_findOne_def included_WorkStreams_def Project_findOne_def PhaseProduct_count_def
  PhaseProduct_create_def persisted_row_def with_default_def keys_def
  in_scope_def where_matches_def column_def get_prop_def
  phase_where_def work_stream_where_def project_where_def count_where_def
  with_defaults_def enrich_def sanitize_def assign_def omit_def
  linkage_not_found_def project_not_found_def quota_exceeded_def
  show_int_def digit_char_def

lemmas ex_defs = ex_env_def ex_project_def ex_store_def ex_product_def ex_req_def

lemma where_matches_phase:
  "where_matches (phase_where phaseId projectId) p \<longleftrightarrow>
     column p ''id'' = JNum phaseId \<and> column p ''projectId'' = JNum projectId"
  by (simp add: where_matches_def phase_where_def)

lemma where_matches_work_stream:
  "where_matches (work_stream_where wsId projectId) w \<longleftrightarrow>
     column w ''id'' = JNum wsId \<and> column w ''projectId'' = JNum projectId"
  by (simp add: where_matches_def work_stream_where_def)

lemma where_matches_project:
  "where_matches (project_where projectId) p \<longleftrightarrow>
     column p ''id'' = JNum projectId \<and> column p ''deletedAt'' = JNull"
  by (simp add: where_matches_def project_where_def)


lemma ProjectPhase_findOne_None_iff:
  "ProjectPhase_findOne m st w iw = None \<longleftrightarrow>
     \<not> (\<exists>p \<in> set (project_phases st). \<exists>ws \<in> set (work_streams st).
          in_scope (paranoid_ProjectPhase m) p \<and> where_matches w p \<and>
          in_scope (paranoid_WorkStream m) ws \<and> where_matches iw ws \<and>
          (column p ''id'', column ws ''id'') \<in> set (phase_work_streams st))"
  by (auto simp: ProjectPhase_findOne_def included_WorkStreams_def find_None_iff filter_empty_conv)

lemma Project_findOne_None_iff:
  "Project_findOne st w = None \<longleftrightarrow> \<not> (\<exists>p \<in> set (projects st). where_matches w p)"
  by (auto simp: Project_findOne_def find_None_iff)

lemma transaction_Inl:
  "fst (body st) = Inl err \<Longrightarrow> transaction body st = (Inl err, st)"
  by (cases "body st") (simp add: transaction_def)

lemma transaction_Inr:
  "body st = (Inr x, st') \<Longrightarrow> transaction body st = (Inr x, st')"
  by (simp add: transaction_def)

lemma handler_of_Inl:
  "fst (create_in_transaction e (params_projectId req) (params_workStreamId req)
          (params_workId req) (with_defaults req) st) = Inl err \<Longrightarrow>
   handler e req st = (st, [Next err])"
  by (simp add: handler_def transaction_Inl)

lemma handler_of_Inr:
  "create_in_transaction e (params_projectId req) (params_workStreamId req)
          (params_workId req) (with_defaults req) st = (Inr (ent, data', logs), st') \<Longrightarrow>
   handler e req st = (st', logs @ send_events e (req\<lparr>body_param := data'\<rparr>) ent)"
  by (simp add: handler_def transaction_Inr)

text \<open>The five ways through the callback of the transaction.\<close>

lemma txn_linkage_missing:
  "ProjectPhase_findOne (models e) st (phase_where phaseId projectId)
      (work_stream_where workStreamId projectId) = None \<Longrightarrow>
   create_in_transaction e projectId workStreamId phaseId data st =
     (Inl (linkage_not_found projectId workStreamId phaseId), st)"
  by (simp add: create_in_transaction_def)

lemma txn_project_missing:
  "ProjectPhase_findOne (models e) st (phase_where phaseId projectId)
      (work_stream_where workStreamId projectId) = Some existing \<Longrightarrow>
   Project_findOne st (project_where projectId) = None \<Longrightarrow>
   create_in_transaction e projectId workStreamId phaseId data st =
     (Inl (project_not_found projectId), st)"
  by (simp add: create_in_transaction_def)

lemma txn_quota:
  "ProjectPhase_findOne (models e) st (phase_where phaseId projectId)
      (work_stream_where workStreamId projectId) = Some existing \<Longrightarrow>
   Project_findOne st (project_where projectId) = Some existingProject \<Longrightarrow>
   PhaseProduct_count st (count_where projectId phaseId) \<ge> maxPhaseProductCount e \<Longrightarrow>
   create_in_transaction e projectId workStreamId phaseId data st =
     (Inl (quota_exceeded (maxPhaseProductCount e)), st)"
  by (simp add: create_in_transaction_def)

lemma txn_insert_rejected:
  "ProjectPhase_findOne (models e) st (phase_where phaseId projectId)
      (work_stream_where workStreamId projectId) = Some existing \<Longrightarrow>
   Project_findOne st (project_where projectId) = Some existingProject \<Longrightarrow>
   PhaseProduct_count st (count_where projectId phaseId) < maxPhaseProductCount e \<Longrightarrow>
   db_insert e st (enrich data projectId phaseId existingProject) = Inl err \<Longrightarrow>
   create_in_transaction e projectId workStreamId phaseId data st = (Inl err, st)"
  by (simp add: create_in_transaction_def PhaseProduct_create_def)

lemma txn_inserted:
  "ProjectPhase_findOne (models e) st (phase_where phaseId projectId)
      (work_stream_where workStreamId projectId) = Some existing \<Longrightarrow>
   Project_findOne st (project_where projectId) = Some existingProject \<Longrightarrow>
   PhaseProduct_count st (count_where projectId phaseId) < maxPhaseProductCount e \<Longrightarrow>
   db_insert e st (enrich data projectId phaseId existingProject) = Inr (newId, now) \<Longrightarrow>
   create_in_transaction e projectId workStreamId phaseId data st =
     (Inr (sanitize (persisted_row (enrich data projectId phaseId existingProject) newId now),
           enrich data projectId phaseId existingProject,
           [LogDebug ''new work created (id# %d, name: %s)''
              [get_prop (persisted_row (enrich data projectId phaseId existingProject) newId now) ''id'',
               get_prop (persisted_row (enrich data projectId phaseId existingProject) newId now) ''name'']]),
      st\<lparr>phase_products := phase_products st @
           [persisted_row (enrich data projectId phaseId existingProject) newId now]\<rparr>)"
  by (simp add: create_in_transaction_def PhaseProduct_create_def Let_def)

lemma txn_cases:
  obtains
    (linkage)
      "ProjectPhase_findOne (models e) st (phase_where phaseId projectId)
         (work_stream_where workStreamId projectId) = None"
  | (project) existing where
      "ProjectPhase_findOne (models e) st (phase_where phaseId projectId)
         (work_stream_where workStreamId projectId) = Some existing"
      "Project_findOne st (project_where projectId) = None"
  | (quota) existing existingProject where
      "ProjectPhase_findOne (models e) st (phase_where phaseId projectId)
         (work_stream_where workStreamId projectId) = Some existing"
      "Project_findOne st (project_where projectId) = Some existingProject"
      "PhaseProduct_count st (count_where projectId phaseId) \<ge> maxPhaseProductCount e"
  | (rejected) existing existingProject err where
      "ProjectPhase_findOne (models e) st (phase_where phaseId projectId)
         (work_stream_where workStreamId projectId) = Some existing"
      "Project_findOne st (project_where projectId) = Some existingProject"
      "PhaseProduct_count st (count_where projectId phaseId) < maxPhaseProductCount e"
      "db_insert e st (enrich data projectId phaseId existingProject) = Inl err"
  | (inserted) existing existingProject newId now where
      "ProjectPhase_findOne (models e) st (phase_where phaseId projectId)
         (work_stream_where workStreamId projectId) = Some existing"
      "Project_findOne st (project_where projectId) = Some existingProject"
      "PhaseProduct_count st (count_where projectId phaseId) < maxPhaseProductCount e"
      "db_insert e st (enrich data projectId phaseId existingProject) = Inr (newId, now)"
proof (cases "ProjectPhase_findOne (models e) st (phase_where phaseId projectId)
      (work_stream_where workStreamId projectId)")
  case None
  then show ?thesis by (rule linkage)
next
  case (Some existing)
  note ex = this
  show ?thesis
  proof (cases "Project_findOne st (project_where projectId)")
    case None
    with ex show ?thesis by (rule project)
  next
    case (Some existingProject)
    note pr = this
    show ?thesis
    proof (cases "PhaseProduct_count st (count_where projectId phaseId) \<ge> maxPhaseProductCount e")
      case True
      with ex pr show ?thesis by (rule quota)
    next
      case False
      then have lt: "PhaseProduct_count st (count_where projectId phaseId) < maxPhaseProductCount e"
        by simp
      show ?thesis
      proof (cases "db_insert e st (enrich data projectId phaseId existingProject)")
        case (Inl err)
        with ex pr lt show ?thesis by (rule rejected)
      next
        case (Inr generated)
        then obtain newId now where
          "db_insert e st (enrich data projectId phaseId existingProject) = Inr (newId, now)"
          by (cases generated) auto
        with ex pr lt show ?thesis by (rule inserted)
      qed
    qed
  qed
qed

text \<open>What the three messages contain.\<close>

lemma linkage_message_ids:
  "sublist (show_int projectId) (err_message (linkage_not_found projectId workStreamId phaseId))"
  "sublist (show_int workStreamId) (err_message (linkage_not_found projectId workStreamId phaseId))"
  "sublist (show_int phaseId) (err_message (linkage_not_found projectId workStreamId phaseId))"
proof -
  let ?a = "''project work stream not found for project id ''"
  let ?b = "'' and work stream ''"
  let ?c = "'' and phase id ''"
  have m: "err_message (linkage_not_found projectId workStreamId phaseId) =
           ?a @ show_int projectId @ ?b @ show_int workStreamId @ ?c @ show_int phaseId"
    by (simp add: linkage_not_found_def)
  show "sublist (show_int projectId) (err_message (linkage_not_found projectId workStreamId phaseId))"
    unfolding m by (rule sublist_appendI)
  have "sublist (show_int workStreamId)
          ((?a @ show_int projectId @ ?b) @ show_int workStreamId @ (?c @ show_int phaseId))"
    by (rule sublist_appendI)
  then show "sublist (show_int workStreamId)
               (err_message (linkage_not_found projectId workStreamId phaseId))"
    unfolding m by simp
  have "sublist (show_int phaseId)
          ((?a @ show_int projectId @ ?b @ show_int workStreamId @ ?c) @ show_int phaseId)"
    by (rule sublist_append_leftI)
  then show "sublist (show_int phaseId)
               (err_message (linkage_not_found projectId workStreamId phaseId))"
    unfolding m by simp
qed

lemma project_message_id:
  "sublist (show_int projectId) (err_message (project_not_found projectId))"
proof -
  have "sublist (show_int projectId) (''project not found for project id '' @ show_int projectId)"
    by (rule sublist_append_leftI)
  then show ?thesis by (simp add: project_not_found_def)
qed

lemma quota_message_limit:
  "sublist (show_int limit) (err_message (quota_exceeded limit))"
proof -
  have "sublist (show_int limit)
          (''the number of products per phase cannot exceed '' @ show_int limit)"
    by (rule sublist_append_leftI)
  then show ?thesis by (simp add: quota_exceeded_def)
qed

text \<open>Properties of the payload and of the persisted row.\<close>

lemma map_of_with_default:
  "map_of (with_default k v ob) k' =
     (if k' = k \<and> k \<notin> keys ob then Some v else map_of ob k')"
proof (cases "k \<in> keys ob")
  case True
  then show ?thesis by (simp add: with_default_def)
next
  case False
  then have none: "map_of ob k = None"
    by (simp add: keys_def map_of_eq_None_iff)
  show ?thesis
  proof (cases "k' = k")
    case True
    with False none show ?thesis by (simp add: with_default_def map_add_def)
  next
    case False
    with \<open>k \<notin> keys ob\<close> show ?thesis
      by (simp add: with_default_def map_add_def split: option.splits)
  qed
qed

lemma keys_with_default: "keys (with_default k v ob) = insert k (keys ob)"
  by (auto simp: with_default_def keys_def)

lemma keys_update: "keys (AList.update k v ob) = insert k (keys ob)"
  by (simp add: keys_def dom_update)

lemma keys_with_defaults:
  "keys (with_defaults req) =
     keys (body_param req) \<union> {''projectId'', ''phaseId'', ''createdBy'', ''updatedBy''}"
  by (auto simp: with_defaults_def assign_def keys_update)


lemma map_of_enrich:
  "map_of (enrich data projectId phaseId existingProject) =
     (map_of data)(''phaseId'' \<mapsto> JNum phaseId, ''projectId'' \<mapsto> JNum projectId,
        ''directProjectId'' \<mapsto> get_prop existingProject ''directProjectId'',
        ''billingAccountId'' \<mapsto> get_prop existingProject ''billingAccountId'')"
  by (simp add: enrich_def assign_def update_conv')

lemma map_of_persisted_row:
  "map_of (persisted_row data newId now) k =
     (if k = ''id'' then Some newId
      else if k = ''createdAt'' \<or> k = ''updatedAt'' then Some now
      else if (k = ''deletedAt'' \<or> k = ''utm'') \<and> k \<notin> keys data then Some JNull
      else map_of data k)"
  by (auto simp: persisted_row_def map_of_with_default keys_with_default assign_def
                update_conv' keys_update)

lemma keys_persisted_row:
  "keys (persisted_row data newId now) =
     keys data \<union> {''id'', ''createdAt'', ''updatedAt'', ''deletedAt'', ''utm''}"
  by (auto simp: persisted_row_def keys_with_default assign_def keys_update)






lemma handler_inserted:
  assumes "ProjectPhase_findOne (models e) st
             (phase_where (params_workId req) (params_projectId req))
             (work_stream_where (params_workStreamId req) (params_projectId req)) = Some existing"
    and "Project_findOne st (project_where (params_projectId req)) = Some existingProject"
    and "PhaseProduct_count st (count_where (params_projectId req) (params_workId req))
           < maxPhaseProductCount e"
    and "data' = enrich (with_defaults req) (params_projectId req) (params_workId req) existingProject"
    and "db_insert e st data' = Inr (newId, now)"
    and "row = persisted_row data' newId now"
  shows "handler e req st =
           (st\<lparr>phase_products := phase_products st @ [row]\<rparr>,
            LogDebug ''new work created (id# %d, name: %s)'' [get_prop row ''id'', get_prop row ''name'']
              # send_events e (req\<lparr>body_param := data'\<rparr>) (sanitize row))"
  using assms by (simp add: handler_of_Inr txn_inserted)



lemma ex_project_found:
  "Project_findOne (ex_store products) (project_where (params_projectId ex_req)) = Some ex_project"
  by (simp add: ex_defs handler_defs)

text \<open>The three ways through the callback that sends the events.\<close>

lemma send_events_cases:
  obtains
    (publish_threw) err where
      "publish_throws e (PROJECT_PHASE_PRODUCT_ADDED e) ent [(''correlationId'', req_id req)] = Some err"
      "send_events e req ent =
         [LogDebug ''Sending event to RabbitMQ bus for phase product %d'' [get_prop ent ''id''],
          Publish (PROJECT_PHASE_PRODUCT_ADDED e) ent [(''correlationId'', req_id req)],
          Next err]"
  | (emit_threw) err where
      "publish_throws e (PROJECT_PHASE_PRODUCT_ADDED e) ent [(''correlationId'', req_id req)] = None"
      "emit_throws e (PROJECT_PHASE_PRODUCT_ADDED e) req ent = Some err"
      "send_events e req ent =
         [LogDebug ''Sending event to RabbitMQ bus for phase product %d'' [get_prop ent ''id''],
          Publish (PROJECT_PHASE_PRODUCT_ADDED e) ent [(''correlationId'', req_id req)],
          LogDebug ''Sending event to Kafka bus for phase product %d'' [get_prop ent ''id''],
          Emit (PROJECT_PHASE_PRODUCT_ADDED e) req ent,
          Next err]"
  | (responded)
      "publish_throws e (PROJECT_PHASE_PRODUCT_ADDED e) ent [(''correlationId'', req_id req)] = None"
      "emit_throws e (PROJECT_PHASE_PRODUCT_ADDED e) req ent = None"
      "send_events e req ent =
         [LogDebug ''Sending event to RabbitMQ bus for phase product %d'' [get_prop ent ''id''],
          Publish (PROJECT_PHASE_PRODUCT_ADDED e) ent [(''correlationId'', req_id req)],
          LogDebug ''Sending event to Kafka bus for phase product %d'' [get_prop ent ''id''],
          Emit (PROJECT_PHASE_PRODUCT_ADDED e) req ent,
          Respond 201 (wrapResponse (req_id req) ent 1 201)]"
proof (cases "publish_throws e (PROJECT_PHASE_PRODUCT_ADDED e) ent [(''correlationId'', req_id req)]")
  case (Some err)
  then show ?thesis by (intro publish_threw [of err]) (simp_all add: send_events_def Let_def)
next
  case None
  note pub = this
  show ?thesis
  proof (cases "emit_throws e (PROJECT_PHASE_PRODUCT_ADDED e) req ent")
    case (Some err)
    with pub show ?thesis by (intro emit_threw [of err]) (simp_all add: send_events_def Let_def)
  next
    case None
    with pub show ?thesis by (intro responded) (simp_all add: send_events_def Let_def)
  qed
qed

text \<open>A call that writes the response went all the way.\<close>

lemma responded_cases:
  assumes "Respond status body \<in> set (snd (handler e req st))"
  obtains existing existingProject newId now data' row where
    "ProjectPhase_findOne (models e) st
       (phase_where (params_workId req) (params_projectId req))
       (work_stream_where (params_workStreamId req) (params_projectId req)) = Some existing"
    "Project_findOne st (project_where (params_projectId req)) = Some existingProject"
    "data' = enrich (with_defaults req) (params_projectId req) (params_workId req) existingProject"
    "db_insert e st data' = Inr (newId, now)"
    "row = persisted_row data' newId now"
    "handler e req st =
       (st\<lparr>phase_products := phase_products st @ [row]\<rparr>,
        [LogDebug ''new work created (id# %d, name: %s)'' [get_prop row ''id'', get_prop row ''name''],
         LogDebug ''Sending event to RabbitMQ bus for phase product %d''
           [get_prop (sanitize row) ''id''],
         Publish (PROJECT_PHASE_PRODUCT_ADDED e) (sanitize row) [(''correlationId'', req_id req)],
         LogDebug ''Sending event to Kafka bus for phase product %d''
           [get_prop (sanitize row) ''id''],
         Emit (PROJECT_PHASE_PRODUCT_ADDED e) (req\<lparr>body_param := data'\<rparr>) (sanitize row),
         Respond 201 (wrapResponse (req_id req) (sanitize row) 1 201)])"
proof -
  let ?pid = "params_projectId req" and ?ws = "params_workStreamId req"
  let ?ph = "params_workId req" and ?data = "with_defaults req"
  show ?thesis
  proof (cases rule: txn_cases [where e = e and st = st and phaseId = "?ph" and projectId = "?pid"
                                   and workStreamId = "?ws" and data = "?data"])
    case linkage
    then have "handler e req st = (st, [Next (linkage_not_found ?pid ?ws ?ph)])"
      by (simp add: handler_of_Inl txn_linkage_missing)
    with assms show ?thesis by simp
  next
    case (project existing)
    then have "handler e req st = (st, [Next (project_not_found ?pid)])"
      by (simp add: handler_of_Inl txn_project_missing)
    with assms show ?thesis by simp
  next
    case (quota existing existingProject)
    then have "handler e req st = (st, [Next (quota_exceeded (maxPhaseProductCount e))])"
      by (simp add: handler_of_Inl txn_quota)
    with assms show ?thesis by simp
  next
    case (rejected existing existingProject err)
    then have "handler e req st = (st, [Next err])"
      by (simp add: handler_of_Inl txn_insert_rejected)
    with assms show ?thesis by simp
  next
    case (inserted existing existingProject newId now)
    let ?data' = "enrich ?data ?pid ?ph existingProject"
    let ?row = "persisted_row ?data' newId now"
    have run: "handler e req st =
           (st\<lparr>phase_products := phase_products st @ [?row]\<rparr>,
            LogDebug ''new work created (id# %d, name: %s)''
              [get_prop ?row ''id'', get_prop ?row ''name'']
              # send_events e (req\<lparr>body_param := ?data'\<rparr>) (sanitize ?row))"
      using inserted by (intro handler_inserted) simp_all
    show ?thesis
    proof (cases rule: send_events_cases [where e = e and ent = "sanitize ?row"
                                            and req = "req\<lparr>body_param := ?data'\<rparr>"])
      case (publish_threw err)
      with run assms show ?thesis by simp
    next
      case (emit_threw err)
      with run assms show ?thesis by simp
    next
      case responded
      with run have "handler e req st =
       (st\<lparr>phase_products := phase_products st @ [?row]\<rparr>,
        [LogDebug ''new work created (id# %d, name: %s)'' [get_prop ?row ''id'', get_prop ?row ''name''],
         LogDebug ''Sending event to RabbitMQ bus for phase product %d''
           [get_prop (sanitize ?row) ''id''],
         Publish (PROJECT_PHASE_PRODUCT_ADDED e) (sanitize ?row) [(''correlationId'', req_id req)],
         LogDebug ''Sending event to Kafka bus for phase product %d''
           [get_prop (sanitize ?row) ''id''],
         Emit (PROJECT_PHASE_PRODUCT_ADDED e) (req\<lparr>body_param := ?data'\<rparr>) (sanitize ?row),
         Respond 201 (wrapResponse (req_id req) (sanitize ?row) 1 201)])"
        by simp
      with inserted show ?thesis
        by (intro that [of existing existingProject ?data' newId now ?row]) simp_all
    qed
  qed
qed

lemma keys_sanitize: "keys (sanitize row) = keys row - {''deletedAt'', ''utm''}"
  by (auto simp: sanitize_def omit_def keys_def)

text \<open>The concrete call that goes all the way.\<close>

lemma ex_run:
  "handler ex_env ex_req (ex_store []) =
     (ex_store [ex_created @ [(''deletedAt'', JNull), (''utm'', JNull)]], ex_trace)"
  by (simp add: ex_defs handler_defs Let_def ex_created_def ex_trace_def)

lemma ex_responded:
  "Respond 201 (wrapResponse (JStr ''req-1'') ex_created 1 201)
     \<in> set (snd (handler ex_env ex_req (ex_store [])))"
  by (simp add: ex_run ex_trace_def)

text \<open>A committed callback has appended one row, and returns it sanitized.\<close>

lemma committed_row:
  assumes "create_in_transaction e projectId workStreamId phaseId data st =
             (Inr (ent, data', logs), st')"
  shows "\<exists>row. st' = st\<lparr>phase_products := phase_products st @ [row]\<rparr> \<and> ent = sanitize row"
proof (cases rule: txn_cases [where e = e and st = st and phaseId = phaseId
          and projectId = projectId and workStreamId = workStreamId and data = data])
  case linkage
  then show ?thesis using assms by (simp add: txn_linkage_missing)
next
  case (project existing)
  then show ?thesis using assms by (simp add: txn_project_missing)
next
  case (quota existing existingProject)
  then show ?thesis using assms by (simp add: txn_quota)
next
  case (rejected existing existingProject err)
  then show ?thesis using assms by (simp add: txn_insert_rejected)
next
  case (inserted existing existingProject newId now)
  then show ?thesis using assms by (auto simp: txn_inserted)
qed


section \<open>Linkage and project lookups\<close>

text \<open>
  Claim C4 (linkage integrity). When the store has no phase row with
  \<open>id = phaseId\<close> and \<open>projectId = projectId\<close> that is linked to a work stream row with
  \<open>id = workStreamId\<close> and \<open>projectId = projectId\<close>, the handler leaves the store as it
  was (no PhaseProduct row is inserted) and passes on one error: status 404, with a message
  that contains the project id, the work stream id and the phase id.
\<close>

theorem linkage_integrity:
  assumes "\<not> (\<exists>p \<in> set (project_phases st). \<exists>w \<in> set (work_streams st).
              column p ''id'' = JNum (params_workId req) \<and>
              column p ''projectId'' = JNum (params_projectId req) \<and>
              column w ''id'' = JNum (params_workStreamId req) \<and>
              column w ''projectId'' = JNum (params_projectId req) \<and>
              (column p ''id'', column w ''id'') \<in> set (phase_work_streams st))"
  shows "\<exists>err. handler e req st = (st, [Next err]) \<and>
           err = linkage_not_found (params_projectId req) (params_workStreamId req)
                   (params_workId req) \<and>
           err_status err = Some 404 \<and>
           sublist (show_int (params_projectId req)) (err_message err) \<and>
           sublist (show_int (params_workStreamId req)) (err_message err) \<and>
           sublist (show_int (params_workId req)) (err_message err)"
proof -
  have "ProjectPhase_findOne (models e) st
          (phase_where (params_workId req) (params_projectId req))
          (work_stream_where (params_workStreamId req) (params_projectId req)) = None"
    using assms
    unfolding ProjectPhase_findOne_None_iff where_matches_phase where_matches_work_stream
    by blast
  then have "handler e req st =
      (st, [Next (linkage_not_found (params_projectId req) (params_workStreamId req)
                    (params_workId req))])"
    by (simp add: handler_of_Inl txn_linkage_missing)
  moreover have "err_status (linkage_not_found (params_projectId req) (params_workStreamId req)
                   (params_workId req)) = Some 404"
    by (simp add: linkage_not_found_def)
  ultimately show ?thesis
    using linkage_message_ids by blast
qed

theorem linkage_integrity_witness:
  "handler ex_env (ex_req\<lparr>params_workStreamId := 11\<rparr>) (ex_store []) =
     (ex_store [],
      [Next \<lparr>err_message =
               ''project work stream not found for project id 1 and work stream 11 and phase id 100'',
             err_status = Some 404\<rparr>])"
proof -
  have h: "\<not> (\<exists>p \<in> set (project_phases (ex_store [])). \<exists>w \<in> set (work_streams (ex_store [])).
              column p ''id'' = JNum (params_workId (ex_req\<lparr>params_workStreamId := 11\<rparr>)) \<and>
              column p ''projectId'' =
                JNum (params_projectId (ex_req\<lparr>params_workStreamId := 11\<rparr>)) \<and>
              column w ''id'' =
                JNum (params_workStreamId (ex_req\<lparr>params_workStreamId := 11\<rparr>)) \<and>
              column w ''projectId'' =
                JNum (params_projectId (ex_req\<lparr>params_workStreamId := 11\<rparr>)) \<and>
              (column p ''id'', column w ''id'') \<in> set (phase_work_streams (ex_store [])))"
    by (simp add: ex_defs column_def)
  show ?thesis
    using linkage_integrity [OF h, of ex_env]
    by (simp add: ex_defs linkage_not_found_def show_int_def digits.simps digit_char_def)
qed

text \<open>
  Claim C5 (soft-delete exclusion of the project). When the linkage lookup finds the phase
  but the store has no project row with \<open>id = projectId\<close> whose \<open>deletedAt\<close> is unset
  (the row is soft-deleted, or there is none), the handler leaves the store as it was and
  passes on one error: status 404, with a message that contains the project id.
\<close>

theorem project_soft_delete_exclusion:
  assumes "ProjectPhase_findOne (models e) st
             (phase_where (params_workId req) (params_projectId req))
             (work_stream_where (params_workStreamId req) (params_projectId req)) = Some existing"
    and "\<not> (\<exists>p \<in> set (projects st).
               column p ''id'' = JNum (params_projectId req) \<and> column p ''deletedAt'' = JNull)"
  shows "\<exists>err. handler e req st = (st, [Next err]) \<and>
           err = project_not_found (params_projectId req) \<and>
           err_status err = Some 404 \<and>
           sublist (show_int (params_projectId req)) (err_message err)"
proof -
  have "Project_findOne st (project_where (params_projectId req)) = None"
    using assms(2) unfolding Project_findOne_None_iff where_matches_project by blast
  with assms(1) have "handler e req st = (st, [Next (project_not_found (params_projectId req))])"
    by (simp add: handler_of_Inl txn_project_missing)
  moreover have "err_status (project_not_found (params_projectId req)) = Some 404"
    by (simp add: project_not_found_def)
  ultimately show ?thesis
    using project_message_id by blast
qed

theorem project_soft_delete_exclusion_witness:
  "handler ex_env ex_req ex_store_deleted_project =
     (ex_store_deleted_project,
      [Next \<lparr>err_message = ''project not found for project id 1'', err_status = Some 404\<rparr>])"
proof -
  have h1: "ProjectPhase_findOne (models ex_env) ex_store_deleted_project
             (phase_where (params_workId ex_req) (params_projectId ex_req))
             (work_stream_where (params_workStreamId ex_req) (params_projectId ex_req)) =
            Some [(''id'', JNum 100), (''projectId'', JNum 1), (''deletedAt'', JNull)]"
    by (simp add: ex_defs ex_store_deleted_project_def handler_defs)
  have h2: "\<not> (\<exists>p \<in> set (projects ex_store_deleted_project).
               column p ''id'' = JNum (params_projectId ex_req) \<and> column p ''deletedAt'' = JNull)"
    by (simp add: ex_defs ex_store_deleted_project_def column_def)
  show ?thesis
    using project_soft_delete_exclusion [OF h1 h2]
    by (simp add: ex_defs project_not_found_def show_int_def digits.simps digit_char_def)
qed

section \<open>The quota\<close>




section \<open>Failures before the commit\<close>

text \<open>
  Claim C2 (atomicity of failure), as the claim states it, fails on the code in two places.
  The error of the quota check has status 400 and a message that names the limit, with
  no identifier in it; and an insert that the store rejects passes on the store's own
  error, whose status is whatever the store gave it. Both are shown on the concrete
  project: with two live products the message is the one below, and neither the project id
  nor the phase id occurs in it; with a store that rejects the insert, the error that
  reaches the caller has no status.
\<close>

theorem failure_is_atomic_counterexample:
  "handler ex_env ex_req (ex_store [ex_product 1, ex_product 2]) =
     (ex_store [ex_product 1, ex_product 2],
      [Next \<lparr>err_message = ''the number of products per phase cannot exceed 2'',
             err_status = Some 400\<rparr>]) \<and>
   \<not> sublist (show_int (params_projectId ex_req))
        ''the number of products per phase cannot exceed 2'' \<and>
   \<not> sublist (show_int (params_workId ex_req))
        ''the number of products per phase cannot exceed 2'' \<and>
   handler ex_env_rejecting ex_req (ex_store []) =
     (ex_store [],
      [Next \<lparr>err_message = ''value too long for type character varying(255)'',
             err_status = None\<rparr>])"
proof -
  have a: "handler ex_env ex_req (ex_store [ex_product 1, ex_product 2]) =
     (ex_store [ex_product 1, ex_product 2],
      [Next \<lparr>err_message = ''the number of products per phase cannot exceed 2'',
             err_status = Some 400\<rparr>])"
    by (simp add: ex_defs handler_defs digits.simps)
  have b: "show_int (params_projectId ex_req) = ''1''" "show_int (params_workId ex_req) = ''100''"
    by (simp_all add: ex_defs show_int_def digits.simps digit_char_def)
  have c: "\<not> sublist ''1'' ''the number of products per phase cannot exceed 2''"
    by (simp add: sublist_code)
  have d: "\<not> sublist ''100'' ''the number of products per phase cannot exceed 2''"
    by (simp add: sublist_code)
  have e: "handler ex_env_rejecting ex_req (ex_store []) =
     (ex_store [],
      [Next \<lparr>err_message = ''value too long for type character varying(255)'',
             err_status = None\<rparr>])"
    by (simp add: ex_defs ex_env_rejecting_def handler_defs)
  show ?thesis using a b c d e by simp
qed

text \<open>
  Claim C2, amended. Whenever the callback of the transaction rejects, the handler leaves
  the store as it was, invokes neither the durable-bus publish nor the in-process emit, and
  passes exactly that error to the caller. The error is one of: the 404 of the missing
  linkage, with the project, work stream and phase ids in its message; the 404 of the
  missing project, with the project id in its message; the 400 of the quota, with the
  configured limit in its message; or the error with which the store rejected the insert.
\<close>

theorem failure_is_atomic:
  assumes "fst (create_in_transaction e (params_projectId req) (params_workStreamId req)
                  (params_workId req) (with_defaults req) st) = Inl err"
  shows "handler e req st = (st, [Next err]) \<and>
         filter is_Publish (snd (handler e req st)) = [] \<and>
         filter is_Emit (snd (handler e req st)) = [] \<and>
         (err = linkage_not_found (params_projectId req) (params_workStreamId req)
                  (params_workId req) \<and>
            err_status err = Some 404 \<and>
            sublist (show_int (params_projectId req)) (err_message err) \<and>
            sublist (show_int (params_workStreamId req)) (err_message err) \<and>
            sublist (show_int (params_workId req)) (err_message err)
          \<or>
          err = project_not_found (params_projectId req) \<and>
            err_status err = Some 404 \<and>
            sublist (show_int (params_projectId req)) (err_message err)
          \<or>
          err = quota_exceeded (maxPhaseProductCount e) \<and>
            err_status err = Some 400 \<and>
            sublist (show_int (maxPhaseProductCount e)) (err_message err)
          \<or>
          (\<exists>existingProject.
             Project_findOne st (project_where (params_projectId req)) = Some existingProject \<and>
             db_insert e st (enrich (with_defaults req) (params_projectId req) (params_workId req)
                               existingProject) = Inl err))"
proof -
  let ?pid = "params_projectId req" and ?ws = "params_workStreamId req"
  let ?ph = "params_workId req" and ?data = "with_defaults req"
  have run: "handler e req st = (st, [Next err])"
    using assms by (rule handler_of_Inl)
  have cls: "err = linkage_not_found ?pid ?ws ?ph \<or> err = project_not_found ?pid \<or>
             err = quota_exceeded (maxPhaseProductCount e) \<or>
             (\<exists>existingProject.
                Project_findOne st (project_where ?pid) = Some existingProject \<and>
                db_insert e st (enrich ?data ?pid ?ph existingProject) = Inl err)"
  proof (cases rule: txn_cases [where e = e and st = st and phaseId = "?ph" and projectId = "?pid"
                                   and workStreamId = "?ws" and data = "?data"])
    case linkage
    then show ?thesis using assms by (simp add: txn_linkage_missing)
  next
    case (project existing)
    then show ?thesis using assms by (simp add: txn_project_missing)
  next
    case (quota existing existingProject)
    then show ?thesis using assms by (simp add: txn_quota)
  next
    case (rejected existing existingProject err')
    then show ?thesis using assms by (simp add: txn_insert_rejected)
  next
    case (inserted existing existingProject newId now)
    then show ?thesis using assms by (simp add: txn_inserted)
  qed
  have s1: "err_status (linkage_not_found ?pid ?ws ?ph) = Some 404"
    by (simp add: linkage_not_found_def)
  have s2: "err_status (project_not_found ?pid) = Some 404"
    by (simp add: project_not_found_def)
  have s3: "err_status (quota_exceeded (maxPhaseProductCount e)) = Some 400"
    by (simp add: quota_exceeded_def)
  have quiet: "filter is_Publish (snd (handler e req st)) = []"
               "filter is_Emit (snd (handler e req st)) = []"
    unfolding run by simp_all
  note ids = linkage_message_ids [where projectId = "?pid" and workStreamId = "?ws"
                                    and phaseId = "?ph"]
  from cls show ?thesis
  proof (elim disjE)
    assume "err = linkage_not_found ?pid ?ws ?ph"
    with run quiet s1 ids show ?thesis by simp
  next
    assume "err = project_not_found ?pid"
    with run quiet s2 project_message_id [of ?pid] show ?thesis by simp
  next
    assume "err = quota_exceeded (maxPhaseProductCount e)"
    with run quiet s3 quota_message_limit [of "maxPhaseProductCount e"] show ?thesis by simp
  next
    assume "\<exists>existingProject.
                Project_findOne st (project_where ?pid) = Some existingProject \<and>
                db_insert e st (enrich ?data ?pid ?ph existingProject) = Inl err"
    with run quiet show ?thesis by simp
  qed
qed

theorem failure_is_atomic_witness:
  "handler ex_env_rejecting ex_req (ex_store []) =
     (ex_store [],
      [Next \<lparr>err_message = ''value too long for type character varying(255)'',
             err_status = None\<rparr>])"
proof -
  have h: "fst (create_in_transaction ex_env_rejecting (params_projectId ex_req)
                  (params_workStreamId ex_req) (params_workId ex_req) (with_defaults ex_req)
                  (ex_store [])) =
           Inl \<lparr>err_message = ''value too long for type character varying(255)'',
                err_status = None\<rparr>"
    by (simp add: ex_defs ex_env_rejecting_def handler_defs)
  show ?thesis
    using failure_is_atomic [OF h] by simp
qed

section \<open>Failures after the commit\<close>

text \<open>
  Claim C3 (publish failures are not caught), as the claim states it, fails on the code:
  the \<^verbatim>\<open>catch\<close> of line 135 closes the whole chain, the \<^verbatim>\<open>then\<close> of lines 123--134
  included. On the concrete project, a publish that throws and an emit that throws both
  end with the handler passing the error on through \<^verbatim>\<open>next(err)\<close>.
\<close>

theorem publish_failure_counterexample:
  "last (snd (handler ex_env_publish_fails ex_req (ex_store []))) =
     Next \<lparr>err_message = ''channel closed'', err_status = None\<rparr> \<and>
   last (snd (handler ex_env_emit_fails ex_req (ex_store []))) =
     Next \<lparr>err_message = ''listener failed'', err_status = None\<rparr>"
  by (simp add: ex_defs ex_env_publish_fails_def ex_env_emit_fails_def handler_defs Let_def)

text \<open>
  Claim C3, amended. When the callback of the transaction has committed and the
  durable-bus publish or the in-process emit then throws, the chain's final \<^verbatim>\<open>catch\<close> gets
  the error and passes it on through \<^verbatim>\<open>next(err)\<close>; what would have followed (the emit after
  a failed publish, and the 201 response in both cases) does not happen; and the store
  keeps the committed row: the insert is not rolled back.
\<close>

theorem publish_failure_caught:
  assumes "create_in_transaction e (params_projectId req) (params_workStreamId req)
             (params_workId req) (with_defaults req) st = (Inr (ent, data', logs), st')"
  shows "(\<exists>row. st' = st\<lparr>phase_products := phase_products st @ [row]\<rparr>) \<and>
         (publish_throws e (PROJECT_PHASE_PRODUCT_ADDED e) ent [(''correlationId'', req_id req)]
            = Some err \<longrightarrow>
          handler e req st =
            (st', logs @
               [LogDebug ''Sending event to RabbitMQ bus for phase product %d'' [get_prop ent ''id''],
                Publish (PROJECT_PHASE_PRODUCT_ADDED e) ent [(''correlationId'', req_id req)],
                Next err])) \<and>
         (publish_throws e (PROJECT_PHASE_PRODUCT_ADDED e) ent [(''correlationId'', req_id req)]
            = None \<and>
          emit_throws e (PROJECT_PHASE_PRODUCT_ADDED e) (req\<lparr>body_param := data'\<rparr>) ent
            = Some err \<longrightarrow>
          handler e req st =
            (st', logs @
               [LogDebug ''Sending event to RabbitMQ bus for phase product %d'' [get_prop ent ''id''],
                Publish (PROJECT_PHASE_PRODUCT_ADDED e) ent [(''correlationId'', req_id req)],
                LogDebug ''Sending event to Kafka bus for phase product %d'' [get_prop ent ''id''],
                Emit (PROJECT_PHASE_PRODUCT_ADDED e) (req\<lparr>body_param := data'\<rparr>) ent,
                Next err]))"
proof (intro conjI impI)
  show "\<exists>row. st' = st\<lparr>phase_products := phase_products st @ [row]\<rparr>"
    using committed_row [OF assms] by blast
next
  assume "publish_throws e (PROJECT_PHASE_PRODUCT_ADDED e) ent [(''correlationId'', req_id req)]
            = Some err"
  then show "handler e req st =
            (st', logs @
               [LogDebug ''Sending event to RabbitMQ bus for phase product %d'' [get_prop ent ''id''],
                Publish (PROJECT_PHASE_PRODUCT_ADDED e) ent [(''correlationId'', req_id req)],
                Next err])"
    by (simp add: handler_of_Inr [OF assms] send_events_def Let_def)
next
  assume "publish_throws e (PROJECT_PHASE_PRODUCT_ADDED e) ent [(''correlationId'', req_id req)]
            = None \<and>
          emit_throws e (PROJECT_PHASE_PRODUCT_ADDED e) (req\<lparr>body_param := data'\<rparr>) ent
            = Some err"
  then show "handler e req st =
            (st', logs @
               [LogDebug ''Sending event to RabbitMQ bus for phase product %d'' [get_prop ent ''id''],
                Publish (PROJECT_PHASE_PRODUCT_ADDED e) ent [(''correlationId'', req_id req)],
                LogDebug ''Sending event to Kafka bus for phase product %d'' [get_prop ent ''id''],
                Emit (PROJECT_PHASE_PRODUCT_ADDED e) (req\<lparr>body_param := data'\<rparr>) ent,
                Next err])"
    by (simp add: handler_of_Inr [OF assms] send_events_def Let_def)
qed

theorem publish_failure_caught_witness:
  "last (snd (handler ex_env_publish_fails ex_req (ex_store []))) =
     Next \<lparr>err_message = ''channel closed'', err_status = None\<rparr> \<and>
   length (phase_products (fst (handler ex_env_publish_fails ex_req (ex_store [])))) = 1"
proof -
  have "\<exists>ent data' logs st'.
          create_in_transaction ex_env_publish_fails (params_projectId ex_req)
            (params_workStreamId ex_req) (params_workId ex_req) (with_defaults ex_req)
            (ex_store []) = (Inr (ent, data', logs), st')"
    by (simp add: ex_defs ex_env_publish_fails_def handler_defs)
  then obtain ent data' logs st' where
    h: "create_in_transaction ex_env_publish_fails (params_projectId ex_req)
          (params_workStreamId ex_req) (params_workId ex_req) (with_defaults ex_req)
          (ex_store []) = (Inr (ent, data', logs), st')"
    by blast
  have p: "publish_throws ex_env_publish_fails (PROJECT_PHASE_PRODUCT_ADDED ex_env_publish_fails)
             ent [(''correlationId'', req_id ex_req)] =
           Some \<lparr>err_message = ''channel closed'', err_status = None\<rparr>"
    by (simp add: ex_defs ex_env_publish_fails_def)
  from publish_failure_caught [OF h, of "\<lparr>err_message = ''channel closed'', err_status = None\<rparr>"] p
  have "(\<exists>row. st' = (ex_store [])\<lparr>phase_products := phase_products (ex_store []) @ [row]\<rparr>)"
    and "handler ex_env_publish_fails ex_req (ex_store []) =
            (st', logs @
               [LogDebug ''Sending event to RabbitMQ bus for phase product %d'' [get_prop ent ''id''],
                Publish (PROJECT_PHASE_PRODUCT_ADDED ex_env_publish_fails) ent
                  [(''correlationId'', req_id ex_req)],
                Next \<lparr>err_message = ''channel closed'', err_status = None\<rparr>])"
    by blast+
  then show ?thesis
    by (auto simp: ex_store_def)
qed

section \<open>The successful call\<close>

text \<open>
  Claim C6 (authoritative enrichment). On every call that writes the response, the row the
  handler has appended to the PhaseProduct table has the \<open>directProjectId\<close> and
  \<open>billingAccountId\<close> of the project row the lookup resolved, whatever the payload
  supplied for them, and the \<open>projectId\<close> and \<open>phaseId\<close> of the path.
\<close>

theorem authoritative_enrichment:
  assumes "Respond status body \<in> set (snd (handler e req st))"
  shows "\<exists>existingProject row.
           Project_findOne st (project_where (params_projectId req)) = Some existingProject \<and>
           fst (handler e req st) = st\<lparr>phase_products := phase_products st @ [row]\<rparr> \<and>
           map_of row ''directProjectId'' = Some (get_prop existingProject ''directProjectId'') \<and>
           map_of row ''billingAccountId'' = Some (get_prop existingProject ''billingAccountId'') \<and>
           map_of row ''projectId'' = Some (JNum (params_projectId req)) \<and>
           map_of row ''phaseId'' = Some (JNum (params_workId req))"
  using assms
proof (cases rule: responded_cases)
  case (1 existing existingProject newId now data' row)
  have "map_of row ''directProjectId'' = Some (get_prop existingProject ''directProjectId'')"
       "map_of row ''billingAccountId'' = Some (get_prop existingProject ''billingAccountId'')"
       "map_of row ''projectId'' = Some (JNum (params_projectId req))"
       "map_of row ''phaseId'' = Some (JNum (params_workId req))"
    unfolding 1(5) 1(3) by (simp_all add: map_of_persisted_row map_of_enrich)
  moreover have "fst (handler e req st) = st\<lparr>phase_products := phase_products st @ [row]\<rparr>"
    unfolding 1(6) by simp
  ultimately show ?thesis
    using 1(2) by (intro exI [of _ existingProject] exI [of _ row]) simp
qed

theorem authoritative_enrichment_witness:
  "map_of (last (phase_products (fst (handler ex_env ex_req (ex_store []))))) ''directProjectId''
     = Some (JNum 55) \<and>
   map_of (body_param ex_req) ''directProjectId'' = Some (JNum 9)"
proof -
  from authoritative_enrichment [OF ex_responded]
  obtain existingProject row where
    a: "Project_findOne (ex_store []) (project_where (params_projectId ex_req)) =
          Some existingProject"
    and b: "fst (handler ex_env ex_req (ex_store [])) =
          (ex_store [])\<lparr>phase_products := phase_products (ex_store []) @ [row]\<rparr>"
    and c: "map_of row ''directProjectId'' = Some (get_prop existingProject ''directProjectId'')"
    by blast
  from a have "existingProject = ex_project"
    by (simp add: ex_project_found)
  moreover have "get_prop ex_project ''directProjectId'' = JNum 55"
    by (simp add: ex_project_def get_prop_def)
  moreover from b have "last (phase_products (fst (handler ex_env ex_req (ex_store [])))) = row"
    by simp
  moreover have "map_of (body_param ex_req) ''directProjectId'' = Some (JNum 9)"
    by (simp add: ex_req_def)
  ultimately show ?thesis
    using c by simp
qed

text \<open>
  Claim C7 (sanitization). On every call that writes the response, the persisted row has
  the properties \<open>deletedAt\<close> and \<open>utm\<close>, while the entity in the response and the entity
  every publish and emit of the call carries is that row without the two properties.
\<close>

theorem sanitization:
  assumes "Respond status body \<in> set (snd (handler e req st))"
  shows "\<exists>row. fst (handler e req st) = st\<lparr>phase_products := phase_products st @ [row]\<rparr> \<and>
           ''deletedAt'' \<in> keys row \<and> ''utm'' \<in> keys row \<and>
           wrap_content body = sanitize row \<and>
           list_all (\<lambda>ev. case event_entity ev of
                            None \<Rightarrow> True
                          | Some ent \<Rightarrow> ent = sanitize row \<and>
                                        ''deletedAt'' \<notin> keys ent \<and> ''utm'' \<notin> keys ent)
                    (snd (handler e req st))"
  using assms
proof (cases rule: responded_cases)
  case (1 existing existingProject newId now data' row)
  have k: "''deletedAt'' \<in> keys row" "''utm'' \<in> keys row"
    unfolding 1(5) by (simp_all add: keys_persisted_row)
  have s: "''deletedAt'' \<notin> keys (sanitize row)" "''utm'' \<notin> keys (sanitize row)"
    by (simp_all add: keys_sanitize)
  have b: "wrap_content body = sanitize row"
    using assms unfolding 1(6) by (auto simp: wrapResponse_def)
  have f: "fst (handler e req st) = st\<lparr>phase_products := phase_products st @ [row]\<rparr>"
    unfolding 1(6) by simp
  have l: "list_all (\<lambda>ev. case event_entity ev of
                            None \<Rightarrow> True
                          | Some ent \<Rightarrow> ent = sanitize row \<and>
                                        ''deletedAt'' \<notin> keys ent \<and> ''utm'' \<notin> keys ent)
                    (snd (handler e req st))"
    unfolding 1(6) using s by (simp add: event_entity_def wrapResponse_def)
  show ?thesis
    using f k b l by (intro exI [of _ row]) simp
qed

theorem sanitization_witness:
  "''deletedAt'' \<in> keys (last (phase_products (fst (handler ex_env ex_req (ex_store []))))) \<and>
   ''utm'' \<in> keys (last (phase_products (fst (handler ex_env ex_req (ex_store []))))) \<and>
   ''deletedAt'' \<notin> keys ex_created \<and> ''utm'' \<notin> keys ex_created \<and>
   ex_created = sanitize (last (phase_products (fst (handler ex_env ex_req (ex_store [])))))"
proof -
  from sanitization [OF ex_responded]
  obtain row where
    a: "fst (handler ex_env ex_req (ex_store [])) =
          (ex_store [])\<lparr>phase_products := phase_products (ex_store []) @ [row]\<rparr>"
    and b: "wrap_content (wrapResponse (JStr ''req-1'') ex_created 1 201) = sanitize row"
    and c: "''deletedAt'' \<in> keys row" "''utm'' \<in> keys row"
    by blast
  from a have "last (phase_products (fst (handler ex_env ex_req (ex_store [])))) = row"
    by simp
  moreover from b have "ex_created = sanitize row"
    by (simp add: wrapResponse_def)
  moreover have "''deletedAt'' \<notin> keys (sanitize row)" "''utm'' \<notin> keys (sanitize row)"
    by (simp_all add: keys_sanitize)
  ultimately show ?thesis
    using c by simp
qed

text \<open>
  Claim C8 (dual publish). On every call that writes the response, the trace has exactly
  one publish and exactly one emit. The publish has the routing key
  \<open>PROJECT_PHASE_PRODUCT_ADDED\<close>, the sanitized row, and the request's id as
  \<open>correlationId\<close>. The emit has the same key, the same sanitized row, and the request
  object: the request of the call, whose \<open>body.param\<close> is by then the payload the handler
  has enriched in place.
\<close>

theorem dual_publish:
  assumes "Respond status body \<in> set (snd (handler e req st))"
  shows "\<exists>existingProject row.
           Project_findOne st (project_where (params_projectId req)) = Some existingProject \<and>
           fst (handler e req st) = st\<lparr>phase_products := phase_products st @ [row]\<rparr> \<and>
           filter is_Publish (snd (handler e req st)) =
             [Publish (PROJECT_PHASE_PRODUCT_ADDED e) (sanitize row)
                [(''correlationId'', req_id req)]] \<and>
           filter is_Emit (snd (handler e req st)) =
             [Emit (PROJECT_PHASE_PRODUCT_ADDED e)
                (req\<lparr>body_param := enrich (with_defaults req) (params_projectId req)
                                        (params_workId req) existingProject\<rparr>)
                (sanitize row)]"
  using assms
proof (cases rule: responded_cases)
  case (1 existing existingProject newId now data' row)
  have "fst (handler e req st) = st\<lparr>phase_products := phase_products st @ [row]\<rparr>"
    unfolding 1(6) by simp
  moreover have "filter is_Publish (snd (handler e req st)) =
             [Publish (PROJECT_PHASE_PRODUCT_ADDED e) (sanitize row)
                [(''correlationId'', req_id req)]]"
    unfolding 1(6) by simp
  moreover have "filter is_Emit (snd (handler e req st)) =
             [Emit (PROJECT_PHASE_PRODUCT_ADDED e)
                (req\<lparr>body_param := enrich (with_defaults req) (params_projectId req)
                                        (params_workId req) existingProject\<rparr>)
                (sanitize row)]"
    unfolding 1(6) 1(3) by simp
  ultimately show ?thesis
    using 1(2) by (intro exI [of _ existingProject] exI [of _ row]) simp
qed

theorem dual_publish_witness:
  "filter is_Publish (snd (handler ex_env ex_req (ex_store []))) =
     [Publish ''project.phase.product.added'' ex_created [(''correlationId'', JStr ''req-1'')]] \<and>
   length (filter is_Emit (snd (handler ex_env ex_req (ex_store [])))) = 1"
proof -
  from dual_publish [OF ex_responded]
  obtain existingProject row where
    a: "filter is_Publish (snd (handler ex_env ex_req (ex_store []))) =
          [Publish (PROJECT_PHASE_PRODUCT_ADDED ex_env) (sanitize row)
             [(''correlationId'', req_id ex_req)]]"
    and b: "filter is_Emit (snd (handler ex_env ex_req (ex_store []))) =
          [Emit (PROJECT_PHASE_PRODUCT_ADDED ex_env)
             (ex_req\<lparr>body_param := enrich (with_defaults ex_req) (params_projectId ex_req)
                                        (params_workId ex_req) existingProject\<rparr>)
             (sanitize row)]"
    by blast
  from b have "length (filter is_Emit (snd (handler ex_env ex_req (ex_store [])))) = 1"
    by simp
  moreover have "filter is_Publish (snd (handler ex_env ex_req (ex_store []))) =
     [Publish ''project.phase.product.added'' ex_created [(''correlationId'', JStr ''req-1'')]]"
    by (simp add: ex_run ex_trace_def)
  ultimately show ?thesis
    by simp
qed



section \<open>Soft-deleted phases and work streams\<close>




end
